theory Spec2Isabelle
  imports Complex_Main "HOL-Library.Word" "HOL-Library.Signed_Division"
begin

section \<open>Paping: a TCP connectivity probe (main.go)\<close>

text \<open>
  The program is one Go file. This theory embeds its functions \<open>isValidPort\<close>,
  \<open>getIPInfo\<close>, \<open>ping\<close> and \<open>printReport\<close> and the struct types
  \<open>ConnectionStats\<close> and \<open>IPInfo\<close>.

  \<^item> Go's \<open>int\<close> (on a 64-bit target) and \<open>time.Duration\<close> (an \<open>int64\<close>
    of nanoseconds) are 64-bit words: \<open>+\<close> wraps, comparisons are the signed ones
    (\<open><s\<close>, \<open>\<le>s\<close>).
  \<^item> Everything \<open>ping\<close> obtains from outside the process (the answer of
    \<open>http.Get\<close>, the outcome of \<open>net.DialTimeout\<close>, the value of
    \<open>time.Since\<close>) is a field of a \<open>world\<close> record, one record per probe.
  \<^item> \<open>ping\<close> holds the mutex of the statistics from its first to its last
    statement, so the probes of a run execute one after the other: a run is a list of
    worlds, folded over the statistics.
  \<^item> A line written to the logger is a value of \<open>log_line\<close> that carries the
    arguments of the format string; colours and number formatting are left out.
\<close>

subsection \<open>Machine numbers\<close>

type_synonym go_int = "64 word"
type_synonym int64 = "64 word"
type_synonym Duration = "64 word"

text \<open>
  \<open>float64\<close>: the IEEE 754 special values, and the finite values as rationals.
  Rounding (of the conversion of an integer beyond \<open>2^53\<close>, of a quotient or a
  product) and the sign of zero are not modelled; division and
  multiplication follow IEEE 754 on the special values (\<open>0/0\<close> is \<open>NaN\<close>,
  \<open>x/0\<close> is an infinity for \<open>x \<noteq> 0\<close>).
\<close>

datatype float64 = NaN | PosInf | NegInf | Finite rat

definition float64_of_int :: "64 word \<Rightarrow> float64" where
  "float64_of_int n = Finite (of_int (sint n))"

fun fdiv :: "float64 \<Rightarrow> float64 \<Rightarrow> float64" where
  "fdiv NaN _ = NaN"
| "fdiv _ NaN = NaN"
| "fdiv (Finite a) (Finite b) =
     (if b = 0 then (if a = 0 then NaN else if 0 < a then PosInf else NegInf)
      else Finite (a / b))"
| "fdiv (Finite a) PosInf = Finite 0"
| "fdiv (Finite a) NegInf = Finite 0"
| "fdiv PosInf (Finite b) = (if 0 \<le> b then PosInf else NegInf)"
| "fdiv NegInf (Finite b) = (if 0 \<le> b then NegInf else PosInf)"
| "fdiv PosInf PosInf = NaN"
| "fdiv PosInf NegInf = NaN"
| "fdiv NegInf PosInf = NaN"
| "fdiv NegInf NegInf = NaN"

fun fmul :: "float64 \<Rightarrow> float64 \<Rightarrow> float64" where
  "fmul NaN _ = NaN"
| "fmul _ NaN = NaN"
| "fmul (Finite a) (Finite b) = Finite (a * b)"
| "fmul (Finite a) PosInf = (if a = 0 then NaN else if 0 < a then PosInf else NegInf)"
| "fmul (Finite a) NegInf = (if a = 0 then NaN else if 0 < a then NegInf else PosInf)"
| "fmul PosInf (Finite b) = (if b = 0 then NaN else if 0 < b then PosInf else NegInf)"
| "fmul NegInf (Finite b) = (if b = 0 then NaN else if 0 < b then NegInf else PosInf)"
| "fmul PosInf PosInf = PosInf"
| "fmul PosInf NegInf = NegInf"
| "fmul NegInf PosInf = NegInf"
| "fmul NegInf NegInf = PosInf"

text \<open>
  \<open>func (d Duration) Milliseconds() int64 { return int64(d) / 1e6 }\<close>:
  Go's integer division truncates towards zero (\<open>sdiv\<close>).
\<close>

definition Milliseconds :: "Duration \<Rightarrow> int64" where
  "Milliseconds d = word_of_int (sint d sdiv 1000000)"

text \<open>The verb \<open>%d\<close> of \<open>fmt.Sprintf\<close> on an \<open>int\<close>.\<close>

fun decimal :: "nat \<Rightarrow> string" where
  "decimal n =
     (if n < 10 then [char_of (48 + n)]
      else decimal (n div 10) @ [char_of (48 + n mod 10)])"

declare decimal.simps [simp del]

definition Sprintf_d :: "go_int \<Rightarrow> string" where
  "Sprintf_d n =
     (if sint n < 0 then CHR ''-'' # decimal (nat (- sint n)) else decimal (nat (sint n)))"

subsection \<open>The data model\<close>

text \<open>
  \<open>type ConnectionStats struct { sync.Mutex; Attempted, Connected, Failed int;
  MinTime, MaxTime, TotalTime time.Duration }\<close>. The mutex has no field here: see
  above.
\<close>

record ConnectionStats =
  Attempted :: go_int
  Connected :: go_int
  Failed :: go_int
  MinTime :: Duration
  MaxTime :: Duration
  TotalTime :: Duration

text \<open>\<open>&ConnectionStats{}\<close> in \<open>main\<close>: every field has its zero value.\<close>

definition new_ConnectionStats :: ConnectionStats where
  "new_ConnectionStats =
     \<lparr>Attempted = 0, Connected = 0, Failed = 0, MinTime = 0, MaxTime = 0, TotalTime = 0\<rparr>"

text \<open>\<open>type IPInfo struct { Org string `json:"org"` }\<close>\<close>

record IPInfo =
  Org :: string

subsection \<open>isValidIP and isValidPort\<close>

text \<open>
  \<open>func isValidIP(ip string) bool { return net.ParseIP(ip) != nil }\<close>. The
  function \<open>net.ParseIP\<close> belongs to Go's standard library, not to this
  repository: it is a parameter here, with \<open>None\<close> for \<open>nil\<close>.
\<close>

definition isValidIP :: "(string \<Rightarrow> 'ip option) \<Rightarrow> string \<Rightarrow> bool" where
  "isValidIP ParseIP ip \<longleftrightarrow> ParseIP ip \<noteq> None"

definition isValidPort :: "go_int \<Rightarrow> bool" where
  "isValidPort port \<longleftrightarrow> 0 <=s port \<and> port <=s 65535"

subsection \<open>getIPInfo\<close>

text \<open>
  \<open>getIPInfo\<close> calls two functions of Go's standard library, which are not part
  of this repository. They are modelled from their documentation.

  \<^item> \<open>http.Get\<close> (package \<open>net/http\<close>): ``An error is returned if caused by
    client policy (such as CheckRedirect), or failure to speak HTTP (such as a network
    connectivity problem). A non-2xx status code doesn't cause an error.'' The
    network is a function from the URL to that result: an error or a response.
  \<^item> \<open>json.NewDecoder(body).Decode(&ipInfo)\<close> (package \<open>encoding/json\<close>):
    ``Decode reads the next JSON-encoded value from its input and stores it in the
    value pointed to by v.'' The body of a response is given by the JSON value its
    bytes start with; \<open>None\<close> when they start with none, and the decoder returns a
    syntax error or \<open>io.EOF\<close>. The value is stored as \<open>json.Unmarshal\<close> does:
    \<^item> into a struct, from an object: ``Unmarshal matches incoming object keys to the
      keys used by Marshal (either the struct field name or its tag), preferring an
      exact match but also accepting a case-insensitive match. By default, object
      keys which don't have a corresponding struct field are ignored.'' The struct
      has the one field \<open>Org\<close>, with the tag \<open>org\<close>.
    \<^item> ``The JSON null value unmarshals into an interface, map, pointer, or slice by
      setting that Go value to nil. [...] Otherwise, the JSON null value has no
      effect.''
    \<^item> ``If a JSON value is not appropriate for a given target type [...] Unmarshal
      skips that field and completes the unmarshaling as best it can. If no more
      serious errors are encountered, Unmarshal returns an UnmarshalTypeError
      describing the earliest such error.''
\<close>

datatype go_error = UrlError | SyntaxError | UnmarshalTypeError | OpError

datatype json =
    JNull
  | JBool bool
  | JNumber string
  | JString string
  | JArray "json list"
  | JObject "(string \<times> json) list"

record Response =
  StatusCode :: int
  Body :: "json option"

definition ascii_lower :: "char \<Rightarrow> char" where
  "ascii_lower c =
     (if 65 \<le> (of_char c :: nat) \<and> (of_char c :: nat) \<le> 90
      then char_of ((of_char c :: nat) + 32) else c)"

definition matches_org :: "string \<Rightarrow> bool" where
  "matches_org key \<longleftrightarrow> map ascii_lower key = ''org''"

definition saveError :: "go_error \<Rightarrow> go_error option \<Rightarrow> go_error option" where
  "saveError err saved = (case saved of None \<Rightarrow> Some err | Some e \<Rightarrow> Some e)"

fun store_Org :: "json \<Rightarrow> go_error option \<times> IPInfo \<Rightarrow> go_error option \<times> IPInfo" where
  "store_Org (JString s) (saved, ipInfo) = (saved, ipInfo\<lparr>Org := s\<rparr>)"
| "store_Org JNull (saved, ipInfo) = (saved, ipInfo)"
| "store_Org _ (saved, ipInfo) = (saveError UnmarshalTypeError saved, ipInfo)"

fun decode_members ::
  "(string \<times> json) list \<Rightarrow> go_error option \<times> IPInfo \<Rightarrow> go_error option \<times> IPInfo" where
  "decode_members [] acc = acc"
| "decode_members ((key, v) # members) acc =
     decode_members members (if matches_org key then store_Org v acc else acc)"

fun Decode :: "json option \<Rightarrow> IPInfo \<Rightarrow> go_error option \<times> IPInfo" where
  "Decode None ipInfo = (Some SyntaxError, ipInfo)"
| "Decode (Some JNull) ipInfo = (None, ipInfo)"
| "Decode (Some (JObject members)) ipInfo = decode_members members (None, ipInfo)"
| "Decode (Some _) ipInfo = (Some UnmarshalTypeError, ipInfo)"

text \<open>
  \<open>getIPInfo\<close> itself; \<open>ipinfo_url\<close> is its
  \<open>fmt.Sprintf("http://ipinfo.io/%s/json", ip)\<close> and \<open>get\<close> is
  \<open>http.Get\<close>. \<open>var ipInfo IPInfo\<close> is the zero value: the empty
  organization. \<open>Inl\<close> is the result \<open>(nil, err)\<close>, \<open>Inr\<close> the result
  \<open>(&ipInfo, nil)\<close>. The status code of the response is not read.
\<close>

definition ipinfo_url :: "string \<Rightarrow> string" where
  "ipinfo_url ip = ''http://ipinfo.io/'' @ ip @ ''/json''"

definition getIPInfo :: "(string \<Rightarrow> go_error + Response) \<Rightarrow> string \<Rightarrow> go_error + IPInfo" where
  "getIPInfo get ip =
     (case get (ipinfo_url ip) of
        Inl err \<Rightarrow> Inl err
      | Inr resp \<Rightarrow>
          (case Decode (Body resp) \<lparr>Org = ''''\<rparr> of
             (Some err, _) \<Rightarrow> Inl err
           | (None, ipInfo) \<Rightarrow> Inr ipInfo))"

subsection \<open>ping\<close>

text \<open>\<open>fmt.Sprintf("%s:%d", host, port)\<close>\<close>

definition dial_address :: "string \<Rightarrow> go_int \<Rightarrow> string" where
  "dial_address host port = host @ '':'' @ Sprintf_d port"

record world =
  http_Get :: "string \<Rightarrow> go_error + Response"
  net_DialTimeout :: "string \<Rightarrow> go_error option"
  time_Since :: Duration

datatype log_line =
    FailedToGetIPInfo go_error
  | ConnectionTimedOut
  | ConnectedTo string float64 go_int string
  | StatisticsHeader
  | Counts go_int go_int go_int float64
  | TimesHeader
  | Times float64 float64 float64

text \<open>
  The statements of \<open>ping\<close> after the connection is made (lines 67 to 76): they
  depend on the statistics and the measured duration only.
\<close>

definition record_success :: "Duration \<Rightarrow> ConnectionStats \<Rightarrow> ConnectionStats" where
  "record_success duration stats =
     (let stats = stats\<lparr>Connected := Connected stats + 1\<rparr>;
          stats = stats\<lparr>TotalTime := TotalTime stats + duration\<rparr>;
          stats = (if MinTime stats = 0 \<or> duration <s MinTime stats
                   then stats\<lparr>MinTime := duration\<rparr> else stats);
          stats = (if MaxTime stats <s duration
                   then stats\<lparr>MaxTime := duration\<rparr> else stats)
      in stats\<lparr>Attempted := Attempted stats + 1\<rparr>)"

definition ping :: "world \<Rightarrow> string \<Rightarrow> go_int \<Rightarrow> ConnectionStats \<Rightarrow> ConnectionStats \<times> log_line" where
  "ping w host port stats =
     (case getIPInfo (http_Get w) host of
        Inl err \<Rightarrow> (stats\<lparr>Failed := Failed stats + 1\<rparr>, FailedToGetIPInfo err)
      | Inr ipInfo \<Rightarrow>
          (case net_DialTimeout w (dial_address host port) of
             Some err \<Rightarrow> (stats\<lparr>Failed := Failed stats + 1\<rparr>, ConnectionTimedOut)
           | None \<Rightarrow>
               (let duration = time_Since w in
                (record_success duration stats,
                 ConnectedTo host (float64_of_int (Milliseconds duration)) port (Org ipInfo)))))"

text \<open>
  The probes of a run, in the order in which they take the mutex; the lines they
  log are collected in that order.
\<close>

fun pings :: "world list \<Rightarrow> string \<Rightarrow> go_int \<Rightarrow> ConnectionStats \<Rightarrow> ConnectionStats \<times> log_line list" where
  "pings [] host port stats = (stats, [])"
| "pings (w # ws) host port stats =
     (let (stats', line) = ping w host port stats;
          (stats'', lines) = pings ws host port stats'
      in (stats'', line # lines))"

text \<open>Whether the probe of a world succeeds: the lookup and the connection both do.\<close>

definition succeeds :: "string \<Rightarrow> go_int \<Rightarrow> world \<Rightarrow> bool" where
  "succeeds host port w \<longleftrightarrow>
     (case getIPInfo (http_Get w) host of
        Inl err \<Rightarrow> False
      | Inr ipInfo \<Rightarrow> net_DialTimeout w (dial_address host port) = None)"

subsection \<open>printReport\<close>

definition printReport :: "ConnectionStats \<Rightarrow> log_line list" where
  "printReport stats =
     (let successRate =
            fmul (fdiv (float64_of_int (Connected stats)) (float64_of_int (Attempted stats)))
              (Finite 100)
      in [StatisticsHeader,
          Counts (Attempted stats) (Connected stats) (Failed stats) successRate,
          TimesHeader] @
         (if 0 <s Connected stats
          then (let averageTime =
                      fdiv (float64_of_int (Milliseconds (TotalTime stats)))
                        (float64_of_int (Connected stats))
                in [Times (float64_of_int (Milliseconds (MinTime stats)))
                      (float64_of_int (Milliseconds (MaxTime stats))) averageTime])
          else []))"

subsection \<open>Runs\<close>

text \<open>
  The statistics when the report is printed: \<open>main\<close> starts from the zero
  statistics, and the probes that have completed are those of \<open>ws\<close>.
\<close>

definition run :: "world list \<Rightarrow> string \<Rightarrow> go_int \<Rightarrow> ConnectionStats" where
  "run ws host port = fst (pings ws host port new_ConnectionStats)"

text \<open>
  The numbers \<open>S\<close> and \<open>F\<close> of successful and failed probes of a run, and the
  durations measured by the successful ones, in order.
\<close>

definition successes :: "string \<Rightarrow> go_int \<Rightarrow> world list \<Rightarrow> nat" where
  "successes host port ws = length (filter (succeeds host port) ws)"

definition failures :: "string \<Rightarrow> go_int \<Rightarrow> world list \<Rightarrow> nat" where
  "failures host port ws = length (filter (\<lambda>w. \<not> succeeds host port w) ws)"

definition durations :: "string \<Rightarrow> go_int \<Rightarrow> world list \<Rightarrow> Duration list" where
  "durations host port ws = map time_Since (filter (succeeds host port) ws)"

text \<open>The two updates of the extrema in \<open>ping\<close>, as functions of the old value.\<close>

definition min_step :: "Duration \<Rightarrow> Duration \<Rightarrow> Duration" where
  "min_step d m = (if m = 0 \<or> d <s m then d else m)"

definition max_step :: "Duration \<Rightarrow> Duration \<Rightarrow> Duration" where
  "max_step d m = (if m <s d then d else m)"

subsection \<open>What the decoder accepts, stated on the JSON value\<close>

text \<open>
  A description of the result of \<open>Decode\<close> that does not run the decoder: which
  bodies it accepts, and which organization it then leaves in the struct (the last
  string stored under a key that matches \<open>org\<close>, the empty string when there is
  none).
\<close>

fun storable :: "json \<Rightarrow> bool" where
  "storable (JString s) = True"
| "storable JNull = True"
| "storable _ = False"

fun decodes :: "json option \<Rightarrow> bool" where
  "decodes (Some JNull) = True"
| "decodes (Some (JObject members)) =
     (\<forall>(key, v) \<in> set members. matches_org key \<longrightarrow> storable v)"
| "decodes _ = False"

fun org_strings :: "(string \<times> json) list \<Rightarrow> string list" where
  "org_strings [] = []"
| "org_strings ((key, JString s) # members) =
     (if matches_org key then s # org_strings members else org_strings members)"
| "org_strings (_ # members) = org_strings members"

fun org_of :: "json option \<Rightarrow> string" where
  "org_of (Some (JObject members)) =
     (if org_strings members = [] then '''' else last (org_strings members))"
| "org_of _ = ''''"

subsection \<open>Example worlds\<close>

definition answering :: "Response \<Rightarrow> string \<Rightarrow> go_error + Response" where
  "answering resp = (\<lambda>url. Inr resp)"

definition found :: Response where
  "found =
     \<lparr>StatusCode = 200,
      Body = Some (JObject [(''ip'', JString ''8.8.8.8''), (''org'', JString ''AS15169 Google LLC'')])\<rparr>"

definition not_found :: Response where
  "not_found =
     \<lparr>StatusCode = 404,
      Body = Some (JObject [(''status'', JNumber ''404''),
        (''error'', JObject [(''title'', JString ''Wrong ip''),
          (''message'', JString ''Please provide a valid IP address'')])])\<rparr>"

definition bogon :: Response where
  "bogon =
     \<lparr>StatusCode = 200,
      Body = Some (JObject [(''ip'', JString ''192.168.1.1''), (''bogon'', JBool True)])\<rparr>"

definition capitalised :: Response where
  "capitalised =
     \<lparr>StatusCode = 200,
      Body = Some (JObject [(''ip'', JString ''8.8.8.8''), (''Org'', JString ''AS15169 Google LLC'')])\<rparr>"

definition world_connected :: "Duration \<Rightarrow> world" where
  "world_connected d =
     \<lparr>http_Get = answering found, net_DialTimeout = (\<lambda>address. None), time_Since = d\<rparr>"

definition world_lookup_failed :: world where
  "world_lookup_failed =
     \<lparr>http_Get = (\<lambda>url. Inl UrlError), net_DialTimeout = (\<lambda>address. None), time_Since = 7\<rparr>"

definition world_dial_failed :: world where
  "world_dial_failed =
     \<lparr>http_Get = answering found, net_DialTimeout = (\<lambda>address. Some OpError),
      time_Since = 5000000000\<rparr>"

definition world_bogon :: world where
  "world_bogon =
     \<lparr>http_Get = answering bogon, net_DialTimeout = (\<lambda>address. None), time_Since = 1200000\<rparr>"

definition example_run :: "world list" where
  "example_run =
     [world_connected 3000000, world_lookup_failed, world_dial_failed, world_connected 2000000]"

section \<open>Properties\<close>

subsection \<open>Lemmas on one probe and on runs\<close>

lemma ping_succeeds:
  "succeeds host port w \<Longrightarrow>
   fst (ping w host port stats) = record_success (time_Since w) stats"
  by (auto simp: succeeds_def ping_def Let_def split: sum.splits option.splits)

lemma ping_fails:
  "\<not> succeeds host port w \<Longrightarrow>
   fst (ping w host port stats) = stats\<lparr>Failed := Failed stats + 1\<rparr>"
  by (auto simp: succeeds_def ping_def Let_def split: sum.splits option.splits)

lemma fst_pings_Cons:
  "fst (pings (w # ws) host port stats) =
   fst (pings ws host port (fst (ping w host port stats)))"
  by (simp split: prod.splits)

lemma record_success_fields:
  "Failed (record_success d s) = Failed s"
  "Connected (record_success d s) = Connected s + 1"
  "Attempted (record_success d s) = Attempted s + 1"
  "TotalTime (record_success d s) = TotalTime s + d"
  "MinTime (record_success d s) = min_step d (MinTime s)"
  "MaxTime (record_success d s) = max_step d (MaxTime s)"
  by (simp_all add: record_success_def min_step_def max_step_def Let_def)

lemma pings_counters:
  "Failed (fst (pings ws host port stats)) = Failed stats + of_nat (failures host port ws) \<and>
   Connected (fst (pings ws host port stats)) =
     Connected stats + of_nat (successes host port ws) \<and>
   Attempted (fst (pings ws host port stats)) =
     Attempted stats + of_nat (successes host port ws)"
proof (induction ws arbitrary: stats)
  case Nil
  show ?case by (simp add: successes_def failures_def)
next
  case (Cons w ws)
  show ?case
  proof (cases "succeeds host port w")
    case True
    then show ?thesis
      by (simp add: fst_pings_Cons Cons.IH ping_succeeds record_success_fields
          successes_def failures_def del: pings.simps)
  next
    case False
    then show ?thesis
      by (simp add: fst_pings_Cons Cons.IH ping_fails successes_def failures_def
          del: pings.simps)
  qed
qed

lemma run_counters:
  "Failed (run ws host port) = of_nat (failures host port ws)"
  "Connected (run ws host port) = of_nat (successes host port ws)"
  "Attempted (run ws host port) = of_nat (successes host port ws)"
  using pings_counters [of ws host port new_ConnectionStats]
  by (simp_all add: run_def new_ConnectionStats_def)

lemma successes_failures: "successes host port ws + failures host port ws = length ws"
  unfolding successes_def failures_def by (induction ws) auto

lemma sint_of_nat_small: "n < 2 ^ 63 \<Longrightarrow> sint (of_nat n :: 64 word) = int n"
proof -
  assume "n < 2 ^ 63"
  then have "int n < 2 ^ 63"
    by (metis of_nat_less_iff of_nat_numeral of_nat_power)
  then have "signed_take_bit 63 (int n) = int n"
    by (intro signed_take_bit_int_eq_self) simp_all
  then show ?thesis by (simp add: signed_of_nat)
qed

lemma sint_word_of_int_small:
  "- (2 ^ 63) \<le> k \<Longrightarrow> k < 2 ^ 63 \<Longrightarrow> sint (word_of_int k :: 64 word) = k"
  by (simp add: sint_sbintrunc' signed_take_bit_int_eq_self)

lemma successRate_equal:
  assumes "Connected stats = Attempted stats" "Attempted stats \<noteq> 0"
  shows "printReport stats ! 1 =
    Counts (Attempted stats) (Connected stats) (Failed stats) (Finite 100)"
  using assms by (simp add: printReport_def float64_of_int_def Let_def signed_eq_0_iff)

lemma matches_org_examples:
  "matches_org ''org''" "matches_org ''Org''" "\<not> matches_org ''ip''"
  "\<not> matches_org ''bogon''" "\<not> matches_org ''status''" "\<not> matches_org ''error''"
  by code_simp+

lemma getIPInfo_found: "getIPInfo (answering found) ip = Inr \<lparr>Org = ''AS15169 Google LLC''\<rparr>"
  by (simp add: getIPInfo_def answering_def found_def matches_org_examples)

lemma succeeds_world_connected: "succeeds host port (world_connected d)"
  by (simp add: succeeds_def world_connected_def getIPInfo_found)

lemma not_succeeds_world_lookup_failed: "\<not> succeeds host port world_lookup_failed"
  by (simp add: succeeds_def world_lookup_failed_def getIPInfo_def)

lemma not_succeeds_world_dial_failed: "\<not> succeeds host port world_dial_failed"
  by (simp add: succeeds_def world_dial_failed_def getIPInfo_found)

lemma time_Since_world_connected: "time_Since (world_connected d) = d"
  by (simp add: world_connected_def)

lemma example_run_counts:
  "successes host port example_run = 2" "failures host port example_run = 2"
  by (simp_all add: successes_def failures_def example_run_def succeeds_world_connected
      not_succeeds_world_lookup_failed not_succeeds_world_dial_failed)

subsection \<open>isValidPort\<close>

text \<open>
  Claim C7. For every integer \<open>n\<close> (every value of Go's \<open>int\<close>, read as a signed
  number), \<open>isValidPort(n)\<close> is true if and only if \<open>0 \<le> n \<le> 65535\<close>; it is true
  of 0 and of 65535 and false of 65536 and of -1.
\<close>

theorem isValidPort_range:
  "(isValidPort port \<longleftrightarrow> 0 \<le> sint port \<and> sint port \<le> 65535) \<and>
   isValidPort 0 \<and> isValidPort 65535 \<and> \<not> isValidPort 65536 \<and> \<not> isValidPort (- 1)"
  by (simp add: isValidPort_def word_sle_eq)

subsection \<open>A failed probe\<close>

text \<open>
  Claim C3. A probe that fails, at the organization lookup or at the TCP connect,
  adds 1 to \<open>Failed\<close> and leaves \<open>Attempted\<close>, \<open>Connected\<close>, \<open>MinTime\<close>,
  \<open>MaxTime\<close> and \<open>TotalTime\<close> as they were: no latency is recorded. Its log line
  is the one of the failure.
\<close>

theorem ping_failure:
  assumes "(\<exists>err. getIPInfo (http_Get w) host = Inl err) \<or>
    (\<exists>ipInfo err. getIPInfo (http_Get w) host = Inr ipInfo \<and>
       net_DialTimeout w (dial_address host port) = Some err)"
  shows "fst (ping w host port stats) = stats\<lparr>Failed := Failed stats + 1\<rparr> \<and>
    Failed (fst (ping w host port stats)) = Failed stats + 1 \<and>
    Attempted (fst (ping w host port stats)) = Attempted stats \<and>
    Connected (fst (ping w host port stats)) = Connected stats \<and>
    MinTime (fst (ping w host port stats)) = MinTime stats \<and>
    MaxTime (fst (ping w host port stats)) = MaxTime stats \<and>
    TotalTime (fst (ping w host port stats)) = TotalTime stats \<and>
    snd (ping w host port stats) =
      (case getIPInfo (http_Get w) host of
         Inl err \<Rightarrow> FailedToGetIPInfo err | Inr ipInfo \<Rightarrow> ConnectionTimedOut)"
proof -
  from assms have "\<not> succeeds host port w"
    by (auto simp: succeeds_def)
  then have "fst (ping w host port stats) = stats\<lparr>Failed := Failed stats + 1\<rparr>"
    by (rule ping_fails)
  moreover from assms have "snd (ping w host port stats) =
      (case getIPInfo (http_Get w) host of
         Inl err \<Rightarrow> FailedToGetIPInfo err | Inr ipInfo \<Rightarrow> ConnectionTimedOut)"
    by (auto simp: ping_def)
  ultimately show ?thesis by simp
qed

theorem ping_failure_witness:
  "getIPInfo (http_Get world_lookup_failed) ''192.0.2.1'' = Inl UrlError \<and>
   ping world_lookup_failed ''192.0.2.1'' 9999 (run example_run ''192.0.2.1'' 9999) =
     (\<lparr>Attempted = 2, Connected = 2, Failed = 3,
       MinTime = 2000000, MaxTime = 3000000, TotalTime = 5000000\<rparr>,
      FailedToGetIPInfo UrlError) \<and>
   getIPInfo (http_Get world_dial_failed) ''192.0.2.1'' = Inr \<lparr>Org = ''AS15169 Google LLC''\<rparr> \<and>
   net_DialTimeout world_dial_failed (dial_address ''192.0.2.1'' 9999) = Some OpError \<and>
   ping world_dial_failed ''192.0.2.1'' 9999 (run example_run ''192.0.2.1'' 9999) =
     (\<lparr>Attempted = 2, Connected = 2, Failed = 3,
       MinTime = 2000000, MaxTime = 3000000, TotalTime = 5000000\<rparr>,
      ConnectionTimedOut)"
proof -
  have r: "run example_run ''192.0.2.1'' 9999 =
     \<lparr>Attempted = 2, Connected = 2, Failed = 2,
      MinTime = 2000000, MaxTime = 3000000, TotalTime = 5000000\<rparr>"
    by (simp add: run_def example_run_def fst_pings_Cons ping_succeeds ping_fails
        succeeds_world_connected not_succeeds_world_lookup_failed
        not_succeeds_world_dial_failed record_success_def new_ConnectionStats_def
        time_Since_world_connected Let_def word_sless_alt del: pings.simps(2))
  have l: "getIPInfo (http_Get world_lookup_failed) ''192.0.2.1'' = Inl UrlError"
    by (simp add: world_lookup_failed_def getIPInfo_def)
  have d: "getIPInfo (http_Get world_dial_failed) ''192.0.2.1'' = Inr \<lparr>Org = ''AS15169 Google LLC''\<rparr>"
    "net_DialTimeout world_dial_failed (dial_address ''192.0.2.1'' 9999) = Some OpError"
    by (simp_all add: world_dial_failed_def getIPInfo_found)
  show ?thesis
    using ping_failure [of world_lookup_failed "''192.0.2.1''" 9999
        "run example_run ''192.0.2.1'' 9999"]
      ping_failure [of world_dial_failed "''192.0.2.1''" 9999
        "run example_run ''192.0.2.1'' 9999"]
    by (simp add: l d r prod_eq_iff)
qed

subsection \<open>The counters of a run\<close>

text \<open>
  Claim C1. After the probes of any run, \<open>N\<close> of them with \<open>S\<close> successes and
  \<open>F\<close> failures (\<open>S + F = N\<close>), the statistics have \<open>Failed = F\<close>,
  \<open>Connected = S\<close> and \<open>Attempted = S\<close> (\<open>Attempted\<close> grows on the success path
  only), so \<open>Connected = Attempted\<close>, and the success rate of the report is 100
  whenever \<open>Attempted > 0\<close>. The three equations hold in the arithmetic of Go's
  \<open>int\<close> for every run, and between the signed values of the fields and the
  numbers \<open>S\<close> and \<open>F\<close> as long as the counters have not wrapped around
  (\<open>N < 2^63\<close>).
\<close>

theorem pings_statistics:
  "Failed (run ws host port) = of_nat (failures host port ws) \<and>
   Connected (run ws host port) = of_nat (successes host port ws) \<and>
   Attempted (run ws host port) = of_nat (successes host port ws) \<and>
   Connected (run ws host port) = Attempted (run ws host port) \<and>
   successes host port ws + failures host port ws = length ws \<and>
   (length ws < 2 ^ 63 \<longrightarrow>
      sint (Failed (run ws host port)) = int (failures host port ws) \<and>
      sint (Connected (run ws host port)) = int (successes host port ws) \<and>
      sint (Attempted (run ws host port)) = int (successes host port ws)) \<and>
   (0 <s Attempted (run ws host port) \<longrightarrow>
      printReport (run ws host port) ! 1 =
        Counts (Attempted (run ws host port)) (Connected (run ws host port))
          (Failed (run ws host port)) (Finite 100))"
proof -
  have le: "successes host port ws \<le> length ws" "failures host port ws \<le> length ws"
    using successes_failures [of host port ws] by simp_all
  have small: "length ws < 2 ^ 63 \<Longrightarrow>
      sint (of_nat (failures host port ws) :: 64 word) = int (failures host port ws) \<and>
      sint (of_nat (successes host port ws) :: 64 word) = int (successes host port ws)"
    using le by (simp add: sint_of_nat_small)
  have rate: "0 <s Attempted (run ws host port) \<Longrightarrow>
      printReport (run ws host port) ! 1 =
        Counts (Attempted (run ws host port)) (Connected (run ws host port))
          (Failed (run ws host port)) (Finite 100)"
    by (rule successRate_equal) (auto simp: run_counters word_sless_alt)
  show ?thesis
    using small rate by (simp add: run_counters successes_failures)
qed

theorem pings_statistics_witness:
  "length example_run < 2 ^ 63 \<and>
   0 <s Attempted (run example_run ''127.0.0.1'' 22) \<and>
   successes ''127.0.0.1'' 22 example_run = 2 \<and>
   failures ''127.0.0.1'' 22 example_run = 2 \<and>
   sint (Failed (run example_run ''127.0.0.1'' 22)) = 2 \<and>
   sint (Connected (run example_run ''127.0.0.1'' 22)) = 2 \<and>
   sint (Attempted (run example_run ''127.0.0.1'' 22)) = 2 \<and>
   printReport (run example_run ''127.0.0.1'' 22) ! 1 = Counts 2 2 2 (Finite 100)"
proof -
  have len: "length example_run < 2 ^ 63"
    by (simp add: example_run_def)
  show ?thesis
    using pings_statistics [of example_run "''127.0.0.1''" 22] len
    by (simp add: example_run_counts word_sless_alt)
qed

subsection \<open>The latencies of a run\<close>

text \<open>
  The latency fields after a run are folds of the measured durations: the sum, and
  the two extrema updates applied in order.
\<close>

lemma pings_latency:
  "MinTime (fst (pings ws host port stats)) =
     fold min_step (durations host port ws) (MinTime stats) \<and>
   MaxTime (fst (pings ws host port stats)) =
     fold max_step (durations host port ws) (MaxTime stats) \<and>
   TotalTime (fst (pings ws host port stats)) =
     TotalTime stats + sum_list (durations host port ws)"
proof (induction ws arbitrary: stats)
  case Nil
  show ?case by (simp add: durations_def)
next
  case (Cons w ws)
  show ?case
  proof (cases "succeeds host port w")
    case True
    then show ?thesis
      using Cons.IH [of "record_success (time_Since w) stats"]
      by (simp add: fst_pings_Cons ping_succeeds durations_def record_success_fields
          del: pings.simps)
  next
    case False
    then show ?thesis
      using Cons.IH [of "stats\<lparr>Failed := Failed stats + 1\<rparr>"]
      by (simp add: fst_pings_Cons ping_fails durations_def del: pings.simps)
  qed
qed

lemma run_latency:
  "MinTime (run ws host port) = fold min_step (durations host port ws) 0"
  "MaxTime (run ws host port) = fold max_step (durations host port ws) 0"
  "TotalTime (run ws host port) = sum_list (durations host port ws)"
  using pings_latency [of ws host port new_ConnectionStats]
  by (simp_all add: run_def new_ConnectionStats_def)

text \<open>The minimum never exceeds the maximum, whatever the durations are.\<close>

lemma fold_steps_ordered:
  "m <=s M \<Longrightarrow> fold min_step ds m <=s fold max_step ds M"
proof (induction ds arbitrary: m M)
  case Nil
  then show ?case by simp
next
  case (Cons d ds)
  from Cons.prems have "min_step d m <=s max_step d M"
    by (auto simp: min_step_def max_step_def word_sle_eq word_sless_alt)
  then show ?case by (simp add: Cons.IH)
qed

lemma run_MinTime_le_MaxTime: "MinTime (run ws host port) <=s MaxTime (run ws host port)"
  by (simp add: run_latency fold_steps_ordered)

text \<open>
  When every successful probe measures more than zero, the minimum is below every
  measured duration; the maximum is above every one in any case.
\<close>

lemma fold_min_step_le:
  "\<forall>d \<in> set ds. 0 <s d \<Longrightarrow> 0 <=s m \<Longrightarrow>
   (\<forall>d \<in> set ds. fold min_step ds m <=s d) \<and>
   (m \<noteq> 0 \<longrightarrow> fold min_step ds m <=s m) \<and>
   (m \<noteq> 0 \<or> ds \<noteq> [] \<longrightarrow> 0 <s fold min_step ds m)"
proof (induction ds arbitrary: m)
  case Nil
  then show ?case by (auto simp: word_sless_eq)
next
  case (Cons d ds)
  have d: "0 <s d" and m': "0 <=s min_step d m" and nz: "min_step d m \<noteq> 0"
    and le: "min_step d m <=s d" "m \<noteq> 0 \<longrightarrow> min_step d m <=s m"
    using Cons.prems by (auto simp: min_step_def word_sle_eq word_sless_alt)
  have ds: "\<forall>d \<in> set ds. 0 <s d"
    using Cons.prems by simp
  from Cons.IH [OF ds m'] nz le show ?case
    by (auto simp: word_sle_eq word_sless_alt)
qed

lemma fold_max_step_ge:
  "(\<forall>d \<in> set ds. d <=s fold max_step ds m) \<and> m <=s fold max_step ds m"
proof (induction ds arbitrary: m)
  case Nil
  show ?case by simp
next
  case (Cons d ds)
  have "d <=s max_step d m" "m <=s max_step d m"
    by (auto simp: max_step_def word_sle_eq word_sless_alt)
  with Cons.IH [of "max_step d m"] show ?case
    by (auto simp: word_sle_eq)
qed

lemma sum_list_lower:
  fixes ks :: "int list"
  shows "\<forall>k \<in> set ks. lo \<le> k \<Longrightarrow> lo * int (length ks) \<le> sum_list ks"
  by (induction ks) (auto simp: algebra_simps)

lemma sum_list_upper:
  fixes ks :: "int list"
  shows "\<forall>k \<in> set ks. k \<le> hi \<Longrightarrow> sum_list ks \<le> hi * int (length ks)"
  by (induction ks) (auto simp: algebra_simps)

lemma word_sum_list_sint:
  "(sum_list ds :: 64 word) = word_of_int (sum_list (map sint ds))"
  by (induction ds) simp_all

text \<open>
  The average lies between the extrema when no successful probe measured zero (or
  less) and the sum of the durations has not left the range of \<open>int64\<close>: then
  \<open>MinTime * Connected \<le> TotalTime \<le> MaxTime * Connected\<close> as integers.
\<close>

lemma average_within_extrema:
  assumes pos: "\<forall>w \<in> set ws. succeeds host port w \<longrightarrow> 0 <s time_Since w"
    and total: "sum_list (map sint (durations host port ws)) < 2 ^ 63"
  shows "sint (Connected (run ws host port)) = int (successes host port ws) \<and>
    sint (MinTime (run ws host port)) * sint (Connected (run ws host port))
      \<le> sint (TotalTime (run ws host port)) \<and>
    sint (TotalTime (run ws host port))
      \<le> sint (MaxTime (run ws host port)) * sint (Connected (run ws host port))"
proof -
  let ?ds = "durations host port ws"
  let ?ks = "map sint ?ds"
  let ?st = "run ws host port"
  have len: "length ?ds = successes host port ws"
    by (simp add: durations_def successes_def)
  have dpos: "\<forall>d \<in> set ?ds. 0 <s d"
    using pos by (auto simp: durations_def)
  have min_le: "\<forall>d \<in> set ?ds. MinTime ?st <=s d"
    using fold_min_step_le [OF dpos, of 0] by (simp add: run_latency)
  have max_ge: "\<forall>d \<in> set ?ds. d <=s MaxTime ?st"
    using fold_max_step_ge [of ?ds 0] by (simp add: run_latency)
  have lower: "sint (MinTime ?st) * int (length ?ks) \<le> sum_list ?ks"
    by (rule sum_list_lower) (use min_le in \<open>auto simp: word_sle_eq\<close>)
  have upper: "sum_list ?ks \<le> sint (MaxTime ?st) * int (length ?ks)"
    by (rule sum_list_upper) (use max_ge in \<open>auto simp: word_sle_eq\<close>)
  have "1 * int (length ?ks) \<le> sum_list ?ks"
    by (rule sum_list_lower) (use dpos in \<open>auto simp: word_sless_alt\<close>)
  then have count: "int (successes host port ws) \<le> sum_list ?ks"
    and nonneg: "0 \<le> sum_list ?ks"
    using len by simp_all
  have "sint (TotalTime ?st) = sum_list ?ks"
    unfolding run_latency word_sum_list_sint using nonneg total
    by (intro sint_word_of_int_small) simp_all
  moreover have "sint (Connected ?st) = int (successes host port ws)"
    unfolding run_counters using count total
    by (intro sint_of_nat_small) simp
  ultimately show ?thesis
    using lower upper len by simp
qed

text \<open>
  Claim C2. The claim: in every run with \<open>Connected > 0\<close>, \<open>MinTime \<le> MaxTime\<close>
  and the average \<open>TotalTime / Connected\<close> lies between \<open>MinTime\<close> and
  \<open>MaxTime\<close>. The code breaks the second part when a successful probe measures
  exactly zero, the value that also marks \<open>MinTime\<close> as unset. Two successful probes
  that measure 0 and 5 ms leave \<open>Connected = 2\<close>, \<open>TotalTime\<close> = 5 ms and
  \<open>MinTime = MaxTime\<close> = 5 ms: the average, 2.5 ms, is below the minimum, in the
  statistics (\<open>TotalTime < MinTime * Connected\<close>) and in the line of the report.
\<close>

theorem average_below_minimum:
  "0 <s Connected (run [world_connected 0, world_connected 5000000] ''127.0.0.1'' 22) \<and>
   run [world_connected 0, world_connected 5000000] ''127.0.0.1'' 22 =
     \<lparr>Attempted = 2, Connected = 2, Failed = 0,
      MinTime = 5000000, MaxTime = 5000000, TotalTime = 5000000\<rparr> \<and>
   sint (TotalTime (run [world_connected 0, world_connected 5000000] ''127.0.0.1'' 22))
     < sint (MinTime (run [world_connected 0, world_connected 5000000] ''127.0.0.1'' 22)) *
       sint (Connected (run [world_connected 0, world_connected 5000000] ''127.0.0.1'' 22)) \<and>
   printReport (run [world_connected 0, world_connected 5000000] ''127.0.0.1'' 22) ! 3 =
     Times (Finite 5) (Finite 5) (Finite (5 / 2))"
proof -
  have r: "run [world_connected 0, world_connected 5000000] ''127.0.0.1'' 22 =
     \<lparr>Attempted = 2, Connected = 2, Failed = 0,
      MinTime = 5000000, MaxTime = 5000000, TotalTime = 5000000\<rparr>"
    by (simp add: run_def fst_pings_Cons ping_succeeds succeeds_world_connected
        record_success_def new_ConnectionStats_def time_Since_world_connected Let_def
        word_sless_alt del: pings.simps(2))
  show ?thesis
    unfolding r
    by (simp add: printReport_def Milliseconds_def float64_of_int_def word_sless_alt
        signed_divide_int_def Let_def)
qed

text \<open>
  Claim C9. Zero is both the mark of an unset \<open>MinTime\<close> and a possible measured
  duration. A successful probe that measures exactly 0 leaves \<open>MinTime\<close> at 0 (from
  any state whose \<open>MinTime\<close> is not negative, the initial one included), and a
  successful probe that finds \<open>MinTime = 0\<close> overwrites it with its own duration,
  however large. So after two successes that measure 0 and \<open>d > 0\<close>, \<open>MinTime\<close>
  is \<open>d\<close> and not the true minimum 0: it is above the duration of the first
  probe.
\<close>

theorem MinTime_zero_sentinel:
  "(succeeds host port w \<and> time_Since w = 0 \<and> 0 <=s MinTime stats \<longrightarrow>
      MinTime (fst (ping w host port stats)) = 0) \<and>
   (succeeds host port w \<and> MinTime stats = 0 \<longrightarrow>
      MinTime (fst (ping w host port stats)) = time_Since w) \<and>
   (succeeds host port w1 \<and> succeeds host port w2 \<and>
    time_Since w1 = 0 \<and> 0 <s time_Since w2 \<longrightarrow>
      MinTime (run [w1] host port) = 0 \<and>
      MinTime (run [w1, w2] host port) = time_Since w2 \<and>
      time_Since w1 <s MinTime (run [w1, w2] host port))"
  by (auto simp: run_latency durations_def ping_succeeds record_success_fields min_step_def
      word_sle_eq word_sless_alt signed_eq_0_iff)

theorem MinTime_zero_sentinel_witness:
  "succeeds ''127.0.0.1'' 22 (world_connected 0) \<and>
   succeeds ''127.0.0.1'' 22 (world_connected 3000000) \<and>
   time_Since (world_connected 0) = 0 \<and> 0 <s time_Since (world_connected 3000000) \<and>
   0 <=s MinTime new_ConnectionStats \<and> MinTime new_ConnectionStats = 0 \<and>
   MinTime (fst (ping (world_connected 0) ''127.0.0.1'' 22 new_ConnectionStats)) = 0 \<and>
   MinTime (fst (ping (world_connected 3000000) ''127.0.0.1'' 22 new_ConnectionStats)) = 3000000 \<and>
   MinTime (run [world_connected 0] ''127.0.0.1'' 22) = 0 \<and>
   MinTime (run [world_connected 0, world_connected 3000000] ''127.0.0.1'' 22) = 3000000 \<and>
   0 <s MinTime (run [world_connected 0, world_connected 3000000] ''127.0.0.1'' 22)"
  using MinTime_zero_sentinel [of "''127.0.0.1''" 22 "world_connected 0" new_ConnectionStats
      "world_connected 0" "world_connected 3000000"]
    MinTime_zero_sentinel [of "''127.0.0.1''" 22 "world_connected 3000000" new_ConnectionStats
      "world_connected 0" "world_connected 3000000"]
  by (simp add: succeeds_world_connected time_Since_world_connected new_ConnectionStats_def
      word_sless_alt)

subsection \<open>The report\<close>

lemma printReport_Counts:
  "printReport stats ! 1 =
     Counts (Attempted stats) (Connected stats) (Failed stats)
       (fmul (fdiv (float64_of_int (Connected stats)) (float64_of_int (Attempted stats)))
          (Finite 100))"
  by (simp add: printReport_def Let_def)

lemma all_failed:
  assumes "\<forall>w \<in> set ws. \<not> succeeds host port w"
  shows "successes host port ws = 0" "failures host port ws = length ws"
  using assms by (simp_all add: successes_def failures_def)

lemma run_failed_only:
  "run [world_lookup_failed, world_dial_failed] host port =
     \<lparr>Attempted = 0, Connected = 0, Failed = 2, MinTime = 0, MaxTime = 0, TotalTime = 0\<rparr>"
  by (simp add: run_def fst_pings_Cons ping_fails not_succeeds_world_lookup_failed
      not_succeeds_world_dial_failed new_ConnectionStats_def del: pings.simps(2))

lemma run_example_run:
  "run example_run host port =
     \<lparr>Attempted = 2, Connected = 2, Failed = 2,
      MinTime = 2000000, MaxTime = 3000000, TotalTime = 5000000\<rparr>"
  by (simp add: run_def example_run_def fst_pings_Cons ping_succeeds ping_fails
      succeeds_world_connected not_succeeds_world_lookup_failed
      not_succeeds_world_dial_failed record_success_def new_ConnectionStats_def
      time_Since_world_connected Let_def word_sless_alt del: pings.simps(2))

text \<open>
  Claim C4. \<open>printReport\<close> computes the success rate as
  \<open>Connected / Attempted * 100\<close> in \<open>float64\<close>, with no test of \<open>Attempted\<close>.
  When \<open>Attempted = 0\<close> the division is by zero and the rate is not a number: it
  is \<open>NaN\<close> when \<open>Connected = 0\<close> too, which is the case after every run, and an
  infinity otherwise. In particular the report of the initial statistics shows
  \<open>NaN\<close>.
\<close>

theorem printReport_zero_attempts:
  "printReport stats ! 1 =
     Counts (Attempted stats) (Connected stats) (Failed stats)
       (fmul (fdiv (float64_of_int (Connected stats)) (float64_of_int (Attempted stats)))
          (Finite 100)) \<and>
   (Attempted stats = 0 \<longrightarrow>
      printReport stats ! 1 =
        Counts 0 (Connected stats) (Failed stats)
          (if Connected stats = 0 then NaN
           else if 0 <s Connected stats then PosInf else NegInf)) \<and>
   (Attempted (run ws host port) = 0 \<longrightarrow>
      printReport (run ws host port) ! 1 = Counts 0 0 (Failed (run ws host port)) NaN) \<and>
   printReport new_ConnectionStats = [StatisticsHeader, Counts 0 0 0 NaN, TimesHeader]"
proof -
  have zero: "Attempted stats = 0 \<Longrightarrow>
      printReport stats ! 1 =
        Counts 0 (Connected stats) (Failed stats)
          (if Connected stats = 0 then NaN
           else if 0 <s Connected stats then PosInf else NegInf)" for stats
    by (simp add: printReport_def Let_def float64_of_int_def word_sless_alt signed_eq_0_iff
        del: of_int_sint)
  have "Attempted (run ws host port) = 0 \<Longrightarrow> Connected (run ws host port) = 0"
    by (simp add: run_counters)
  then have after_run: "Attempted (run ws host port) = 0 \<Longrightarrow>
      printReport (run ws host port) ! 1 = Counts 0 0 (Failed (run ws host port)) NaN"
    using zero [of "run ws host port"] by simp
  have initial: "printReport new_ConnectionStats = [StatisticsHeader, Counts 0 0 0 NaN, TimesHeader]"
    by (simp add: printReport_def new_ConnectionStats_def float64_of_int_def Let_def)
  show ?thesis
    using printReport_Counts [of stats] zero [of stats] after_run initial by blast
qed

theorem printReport_zero_attempts_witness:
  "Attempted (run [world_lookup_failed, world_dial_failed] ''192.0.2.1'' 9999) = 0 \<and>
   printReport (run [world_lookup_failed, world_dial_failed] ''192.0.2.1'' 9999) ! 1 =
     Counts 0 0 2 NaN"
  using printReport_zero_attempts [of "run [world_lookup_failed, world_dial_failed] ''192.0.2.1'' 9999"
      "[world_lookup_failed, world_dial_failed]" "''192.0.2.1''" 9999]
  by (simp add: run_failed_only float64_of_int_def)

text \<open>
  Claim C5. The report has a latency line (minimum, maximum and average, in
  milliseconds, the average being \<open>TotalTime\<close> in milliseconds divided by
  \<open>Connected\<close>) if and only if \<open>Connected > 0\<close>; it is then the fourth and last
  line. When \<open>Connected\<close> is not positive the report ends with the header of the
  latency section. After a run in which every probe failed, \<open>Connected = 0\<close> and
  the report has no latency line.
\<close>

theorem printReport_latency_section:
  "((\<exists>mn mx avg. Times mn mx avg \<in> set (printReport stats)) \<longleftrightarrow> 0 <s Connected stats) \<and>
   (0 <s Connected stats \<longrightarrow>
      length (printReport stats) = 4 \<and>
      printReport stats ! 3 =
        Times (float64_of_int (Milliseconds (MinTime stats)))
          (float64_of_int (Milliseconds (MaxTime stats)))
          (Finite (of_int (sint (Milliseconds (TotalTime stats))) /
             of_int (sint (Connected stats))))) \<and>
   (\<not> 0 <s Connected stats \<longrightarrow>
      length (printReport stats) = 3 \<and> last (printReport stats) = TimesHeader) \<and>
   ((\<forall>w \<in> set ws. \<not> succeeds host port w) \<longrightarrow>
      Connected (run ws host port) = 0 \<and>
      Failed (run ws host port) = of_nat (length ws) \<and>
      printReport (run ws host port) =
        [StatisticsHeader, Counts 0 0 (of_nat (length ws)) NaN, TimesHeader])"
proof -
  have iff: "(\<exists>mn mx avg. Times mn mx avg \<in> set (printReport stats)) \<longleftrightarrow> 0 <s Connected stats"
    by (auto simp: printReport_def Let_def)
  have pos: "0 <s Connected stats \<Longrightarrow>
      length (printReport stats) = 4 \<and>
      printReport stats ! 3 =
        Times (float64_of_int (Milliseconds (MinTime stats)))
          (float64_of_int (Milliseconds (MaxTime stats)))
          (Finite (of_int (sint (Milliseconds (TotalTime stats))) /
             of_int (sint (Connected stats))))"
    by (auto simp: printReport_def Let_def float64_of_int_def word_sless_alt
        simp del: of_int_sint)
  have none: "\<not> 0 <s Connected stats \<Longrightarrow>
      length (printReport stats) = 3 \<and> last (printReport stats) = TimesHeader"
    by (simp add: printReport_def Let_def)
  have failed: "\<forall>w \<in> set ws. \<not> succeeds host port w \<Longrightarrow>
      Connected (run ws host port) = 0 \<and>
      Failed (run ws host port) = of_nat (length ws) \<and>
      printReport (run ws host port) =
        [StatisticsHeader, Counts 0 0 (of_nat (length ws)) NaN, TimesHeader]"
    by (simp add: printReport_def Let_def run_counters all_failed float64_of_int_def)
  show ?thesis
    using iff pos none failed by blast
qed

theorem printReport_latency_section_witness:
  "0 <s Connected (run example_run ''127.0.0.1'' 22) \<and>
   printReport (run example_run ''127.0.0.1'' 22) =
     [StatisticsHeader, Counts 2 2 2 (Finite 100), TimesHeader,
      Times (Finite 2) (Finite 3) (Finite (5 / 2))] \<and>
   \<not> succeeds ''192.0.2.1'' 9999 world_lookup_failed \<and>
   \<not> succeeds ''192.0.2.1'' 9999 world_dial_failed \<and>
   \<not> 0 <s Connected (run [world_lookup_failed, world_dial_failed] ''192.0.2.1'' 9999) \<and>
   printReport (run [world_lookup_failed, world_dial_failed] ''192.0.2.1'' 9999) =
     [StatisticsHeader, Counts 0 0 2 NaN, TimesHeader]"
proof -
  have all: "\<forall>w \<in> set [world_lookup_failed, world_dial_failed]. \<not> succeeds ''192.0.2.1'' 9999 w"
    by (simp add: not_succeeds_world_lookup_failed not_succeeds_world_dial_failed)
  have pos: "0 <s Connected (run example_run ''127.0.0.1'' 22)"
    by (simp add: run_example_run word_sless_alt)
  have four: "printReport (run example_run ''127.0.0.1'' 22) =
     [StatisticsHeader, Counts 2 2 2 (Finite 100), TimesHeader,
      printReport (run example_run ''127.0.0.1'' 22) ! 3]"
    by (simp add: run_example_run printReport_def float64_of_int_def Let_def word_sless_alt)
  from printReport_latency_section [of "run example_run ''127.0.0.1'' 22"
      "[world_lookup_failed, world_dial_failed]" "''192.0.2.1''" 9999] pos all
  have "printReport (run example_run ''127.0.0.1'' 22) ! 3 =
      Times (Finite 2) (Finite 3) (Finite (5 / 2))"
    and "printReport (run [world_lookup_failed, world_dial_failed] ''192.0.2.1'' 9999) =
      [StatisticsHeader, Counts 0 0 2 NaN, TimesHeader]"
    and "Connected (run [world_lookup_failed, world_dial_failed] ''192.0.2.1'' 9999) = 0"
    by (simp_all add: run_example_run Milliseconds_def float64_of_int_def
        signed_divide_int_def)
  with four pos all show ?thesis
    by (simp add: word_sless_alt)
qed

subsection \<open>The organization lookup\<close>

text \<open>The decoder run on the members of an object, and on a body.\<close>

lemma decode_members_eq:
  "decode_members members (saved, ipInfo) =
     (if saved \<noteq> None then saved
      else if \<forall>(key, v) \<in> set members. matches_org key \<longrightarrow> storable v then None
      else Some UnmarshalTypeError,
      ipInfo\<lparr>Org := if org_strings members = [] then Org ipInfo
        else last (org_strings members)\<rparr>)"
proof (induction members arbitrary: saved ipInfo)
  case Nil
  show ?case by simp
next
  case (Cons m members)
  obtain key v where m: "m = (key, v)" by (cases m)
  show ?case
  proof (cases "matches_org key")
    case True
    then show ?thesis
      unfolding m by (cases v) (auto simp: Cons.IH saveError_def split: option.splits)
  next
    case False
    then show ?thesis
      unfolding m by (cases v) (auto simp: Cons.IH)
  qed
qed

lemma Decode_eq:
  "Decode body \<lparr>Org = ''''\<rparr> =
     (if decodes body then None
      else if body = None then Some SyntaxError else Some UnmarshalTypeError,
      \<lparr>Org = org_of body\<rparr>)"
proof (cases body)
  case None
  then show ?thesis by simp
next
  case (Some j)
  then show ?thesis by (cases j) (simp_all add: decode_members_eq)
qed

lemma getIPInfo_eq:
  "getIPInfo get ip =
     (case get (ipinfo_url ip) of
        Inl err \<Rightarrow> Inl err
      | Inr resp \<Rightarrow>
          if decodes (Body resp) then Inr \<lparr>Org = org_of (Body resp)\<rparr>
          else Inl (if Body resp = None then SyntaxError else UnmarshalTypeError))"
  by (simp add: getIPInfo_def Decode_eq split: sum.splits)

lemma no_org_key:
  "\<forall>(key, v) \<in> set members. \<not> matches_org key \<Longrightarrow> org_strings members = []"
  by (induction members rule: org_strings.induct) auto

text \<open>
  Claim C6, as the code has it. \<open>getIPInfo\<close> returns an error if and only if
  \<open>http.Get\<close> returns one (the request could not be carried out) or the decoder
  does: the body does not start with a JSON value, or the value is neither \<open>null\<close>
  nor an object, or the object gives under a key that matches \<open>org\<close> a value that
  is neither a string nor \<open>null\<close>. Otherwise it returns the organization of the
  object, empty when the object names none. The status code of the response is
  never read: replacing it by any other changes nothing.
\<close>

theorem getIPInfo_result:
  "getIPInfo get ip =
     (case get (ipinfo_url ip) of
        Inl err \<Rightarrow> Inl err
      | Inr resp \<Rightarrow>
          if decodes (Body resp) then Inr \<lparr>Org = org_of (Body resp)\<rparr>
          else Inl (if Body resp = None then SyntaxError else UnmarshalTypeError)) \<and>
   ((\<exists>err. getIPInfo get ip = Inl err) \<longleftrightarrow>
      (\<exists>err. get (ipinfo_url ip) = Inl err) \<or>
      (\<exists>resp. get (ipinfo_url ip) = Inr resp \<and> \<not> decodes (Body resp))) \<and>
   getIPInfo (\<lambda>url. map_sum id (\<lambda>resp. resp\<lparr>StatusCode := code\<rparr>) (get url)) ip =
     getIPInfo get ip"
proof -
  have iff: "(\<exists>err. getIPInfo get ip = Inl err) \<longleftrightarrow>
      (\<exists>err. get (ipinfo_url ip) = Inl err) \<or>
      (\<exists>resp. get (ipinfo_url ip) = Inr resp \<and> \<not> decodes (Body resp))"
    unfolding getIPInfo_eq by (cases "get (ipinfo_url ip)") auto
  have status:
    "getIPInfo (\<lambda>url. map_sum id (\<lambda>resp. resp\<lparr>StatusCode := code\<rparr>) (get url)) ip =
     getIPInfo get ip"
    unfolding getIPInfo_eq by (cases "get (ipinfo_url ip)") auto
  show ?thesis
    using getIPInfo_eq [of get ip] iff status by blast
qed

theorem getIPInfo_result_witness:
  "getIPInfo (\<lambda>url. if url = ''http://ipinfo.io/8.8.8.8/json'' then Inr found else Inl UrlError)
     ''8.8.8.8'' = Inr \<lparr>Org = ''AS15169 Google LLC''\<rparr> \<and>
   getIPInfo (answering \<lparr>StatusCode = 200, Body = Some (JObject [(''org'', JNumber ''15169'')])\<rparr>)
     ''8.8.8.8'' = Inl UnmarshalTypeError \<and>
   getIPInfo (answering \<lparr>StatusCode = 200, Body = Some (JArray [])\<rparr>) ''8.8.8.8'' =
     Inl UnmarshalTypeError \<and>
   getIPInfo (answering \<lparr>StatusCode = 200, Body = None\<rparr>) ''8.8.8.8'' = Inl SyntaxError \<and>
   getIPInfo (\<lambda>url. Inl UrlError) ''8.8.8.8'' = Inl UrlError"
  using
    getIPInfo_result [of "\<lambda>url. if url = ''http://ipinfo.io/8.8.8.8/json'' then Inr found else Inl UrlError"
      "''8.8.8.8''"]
    getIPInfo_result [of "answering \<lparr>StatusCode = 200, Body = Some (JObject [(''org'', JNumber ''15169'')])\<rparr>"
      "''8.8.8.8''"]
    getIPInfo_result [of "answering \<lparr>StatusCode = 200, Body = Some (JArray [])\<rparr>" "''8.8.8.8''"]
    getIPInfo_result [of "answering \<lparr>StatusCode = 200, Body = None\<rparr>" "''8.8.8.8''"]
    getIPInfo_result [of "\<lambda>url. Inl UrlError" "''8.8.8.8''"]
  by (simp add: ipinfo_url_def answering_def found_def matches_org_examples)

text \<open>
  The claim as the specification states it also counts a response with a status
  that is not a success among the errors. A response with status 404 whose body is a
  JSON object (the one the service sends for an address it does not know) is no
  error for \<open>getIPInfo\<close>: the lookup succeeds with the empty organization.
\<close>

theorem getIPInfo_status_counterexample:
  "\<not> (200 \<le> StatusCode not_found \<and> StatusCode not_found < 300) \<and>
   getIPInfo (answering not_found) ''999.1.1.1'' = Inr \<lparr>Org = ''''\<rparr>"
  by (simp add: not_found_def answering_def getIPInfo_def matches_org_examples)

text \<open>
  Claim C10, as the code has it. When the service answers with a JSON object none
  of whose keys is \<open>org\<close> in any capitalization, the lookup reports no error and
  the organization is the empty string; the probe goes on to the TCP connect, and
  on success it logs an empty ISP.
\<close>

theorem missing_org_field:
  assumes "http_Get w (ipinfo_url host) = Inr resp"
    and "Body resp = Some (JObject members)"
    and "\<forall>(key, v) \<in> set members. \<not> matches_org key"
  shows "getIPInfo (http_Get w) host = Inr \<lparr>Org = ''''\<rparr> \<and>
    ping w host port stats =
      (case net_DialTimeout w (dial_address host port) of
         Some err \<Rightarrow> (stats\<lparr>Failed := Failed stats + 1\<rparr>, ConnectionTimedOut)
       | None \<Rightarrow>
           (record_success (time_Since w) stats,
            ConnectedTo host (float64_of_int (Milliseconds (time_Since w))) port ''''))"
proof -
  have "decodes (Body resp)"
    using assms(2,3) by auto
  moreover have "org_of (Body resp) = ''''"
    using assms(2,3) by (simp add: no_org_key)
  ultimately have "getIPInfo (http_Get w) host = Inr \<lparr>Org = ''''\<rparr>"
    using assms(1) by (simp add: getIPInfo_eq)
  then show ?thesis
    by (simp add: ping_def Let_def split: option.splits)
qed

theorem missing_org_field_witness:
  "http_Get world_bogon (ipinfo_url ''192.168.1.1'') = Inr bogon \<and>
   Body bogon = Some (JObject [(''ip'', JString ''192.168.1.1''), (''bogon'', JBool True)]) \<and>
   \<not> matches_org ''ip'' \<and> \<not> matches_org ''bogon'' \<and>
   getIPInfo (http_Get world_bogon) ''192.168.1.1'' = Inr \<lparr>Org = ''''\<rparr> \<and>
   ping world_bogon ''192.168.1.1'' 80 new_ConnectionStats =
     (\<lparr>Attempted = 1, Connected = 1, Failed = 0,
       MinTime = 1200000, MaxTime = 1200000, TotalTime = 1200000\<rparr>,
      ConnectedTo ''192.168.1.1'' (Finite 1) 80 '''')"
proof -
  have get: "http_Get world_bogon (ipinfo_url ''192.168.1.1'') = Inr bogon"
    by (simp add: world_bogon_def answering_def)
  have body: "Body bogon = Some (JObject [(''ip'', JString ''192.168.1.1''), (''bogon'', JBool True)])"
    by (simp add: bogon_def)
  have keys: "\<forall>(key, v) \<in> set [(''ip'', JString ''192.168.1.1''), (''bogon'', JBool True)].
      \<not> matches_org key"
    by (simp add: matches_org_examples)
  have dial: "net_DialTimeout world_bogon address = None" "time_Since world_bogon = 1200000"
    for address
    by (simp_all add: world_bogon_def)
  from missing_org_field [OF get body keys, of 80 new_ConnectionStats]
  show ?thesis
    by (simp add: get body matches_org_examples dial record_success_def new_ConnectionStats_def Let_def
        Milliseconds_def float64_of_int_def signed_divide_int_def word_sless_alt)
qed

text \<open>
  The claim as stated speaks of an object that lacks the key \<open>org\<close>. The decoder
  matches keys with the tag of the field ignoring case, so an object whose only
  organization key is written \<open>Org\<close> lacks the key \<open>org\<close> and still fills the
  field: the organization is not empty.
\<close>

theorem missing_org_field_counterexample:
  "Body capitalised =
     Some (JObject [(''ip'', JString ''8.8.8.8''), (''Org'', JString ''AS15169 Google LLC'')]) \<and>
   ''org'' \<notin> fst ` set [(''ip'', JString ''8.8.8.8''), (''Org'', JString ''AS15169 Google LLC'')] \<and>
   getIPInfo (answering capitalised) ''8.8.8.8'' = Inr \<lparr>Org = ''AS15169 Google LLC''\<rparr>"
  by (simp add: capitalised_def answering_def getIPInfo_def matches_org_examples)

end
